theory Spec2Isabelle
  imports Main "HOL-Library.Word"
begin

section \<open>Vehicle resolution: \<open>ensureVehicleEx\<close>\<close>

text \<open>
  Strings are byte strings. \<open>strings.ToUpper\<close> belongs to Go's library, not to this
  program: it is the parameter \<open>ToUpper :: string \<Rightarrow> string\<close> of the definitions below,
  and what is proved of them holds whatever function it is. Where a statement speaks of
  an empty or non-empty filter, it assumes of \<open>ToUpper\<close> that it returns the empty string
  for the empty string and for no other, as \<open>strings.ToUpper\<close> does: it maps every rune of
  its argument to a rune and drops none.
\<close>

text \<open>
  The errors \<open>ensureVehicleEx\<close> returns. \<open>'e\<close> is the type of the errors of the
  collaborators (the vehicle list, the identifier extraction, the login, the provider).
  \<^item> \<open>Passed err\<close>: a collaborator's error returned as it is (\<open>return zero, err\<close>);
  \<^item> \<open>CannotGetVehicles err\<close>: \<open>fmt.Errorf("cannot get vehicles: %w", err)\<close>;
  \<^item> \<open>CannotFindVehicle ids\<close>: \<open>fmt.Errorf("cannot find vehicle, got: %v", ids)\<close>.
\<close>

datatype 'e error =
    Passed 'e
  | CannotGetVehicles 'e
  | CannotFindVehicle "string list"

text \<open>
  The identifier extraction has the Go type \<open>func(T) (string, error)\<close>: it returns a string
  and an error together, and the diagnostic at the end of \<open>ensureVehicleEx\<close> reads the
  string whatever the error is (\<open>vin, _ := extract(v)\<close>). So it is modelled as a function to
  a pair, the error being \<open>None\<close> for Go's \<open>nil\<close>. The result of \<open>list()\<close> is a sum: its
  slice is never read when its error is set.

  \<open>scan\<close> is the \<open>for _, vehicle := range vehicles\<close> loop of the branch "vin defined":
  \<open>Inl err\<close> is the early return with the extraction error, \<open>Inr (Some vehicle)\<close> the
  early return with the match, \<open>Inr None\<close> the loop running to its end.
\<close>

fun scan ::
  "(string \<Rightarrow> string) \<Rightarrow> string \<Rightarrow> ('a \<Rightarrow> string \<times> 'e option) \<Rightarrow> 'a list \<Rightarrow> 'e + 'a option" where
  "scan ToUpper vin extract [] = Inr None"
| "scan ToUpper vin extract (vehicle # vehicles) =
     (case extract vehicle of
        (vv, Some err) \<Rightarrow> Inl err
      | (vv, None) \<Rightarrow>
          if ToUpper vv = vin then Inr (Some vehicle) else scan ToUpper vin extract vehicles)"

definition ensureVehicleEx ::
  "(string \<Rightarrow> string) \<Rightarrow> string \<Rightarrow> ('e + 'a list) \<Rightarrow> ('a \<Rightarrow> string \<times> 'e option) \<Rightarrow> 'e error + 'a" where
  "ensureVehicleEx ToUpper vin list extract =
     (case list of
        Inl err \<Rightarrow> Inl (CannotGetVehicles err)
      | Inr vehicles \<Rightarrow>
          (let cannot_find = Inl (CannotFindVehicle (map (\<lambda>v. fst (extract v)) vehicles))
           in if ToUpper vin \<noteq> [] then
                (case scan ToUpper (ToUpper vin) extract vehicles of
                   Inl err \<Rightarrow> Inl (Passed err)
                 | Inr (Some vehicle) \<Rightarrow> Inr vehicle
                 | Inr None \<Rightarrow> cannot_find)
              else if length vehicles = 1 then Inr (vehicles ! 0)
              else cannot_find))"

section \<open>The exporter: flags, gauges and the poll loop of \<open>main\<close>\<close>

text \<open>
  The command-line flags of \<open>main\<close>, named as its variables are. Go's \<open>int\<close> is taken
  at 64 bits, its width on the platforms the exporter is built for.
\<close>

record flags =
  listenAddr :: string
  username :: string
  token :: string
  vin :: string
  pollInterval :: "64 word"
  showVersion :: bool

text \<open>The second argument of each \<open>flag.String\<close>, \<open>flag.Int\<close> and \<open>flag.Bool\<close>.\<close>

definition flag_defaults :: flags where
  "flag_defaults =
     \<lparr>listenAddr = '':9333'', username = ''user@example.com'', token = ''secret1234'',
      vin = ''TM...'', pollInterval = 60, showVersion = False\<rparr>"

text \<open>
  \<open>bluelink.Vehicle\<close>, of which the exporter reads the field \<open>VIN\<close> only, and
  \<open>time.Time\<close>, of which it reads \<open>Unix()\<close> only (an \<open>int64\<close>: the seconds since the epoch).
\<close>

record Vehicle =
  VIN :: string
  VehicleName :: string
  VehicleID :: string

datatype time = Time (Unix: "64 word")

text \<open>The five gauges, named as the variables of \<open>main\<close> that hold them.\<close>

datatype gauge = evRange | evSoc | evStatus | evFinishTime | evOdometer

text \<open>
  What the loop does to the outside world, in order: the calls to the remote source, the
  lines written to the log (the text before the value, then the value) and the calls of
  \<open>time.Sleep\<close> with their duration in nanoseconds.
\<close>

datatype 'e logged = LoggedErr 'e | LoggedResolveErr "'e error" | LoggedStatus string

datatype 'e event =
    EvLogin string string
  | EvVehicles
  | EvFetch gauge
  | EvLog string "'e logged"
  | EvSleep "64 word"

text \<open>
  The state the loop body works on: the value each gauge holds (a float64, of type \<open>'f\<close>)
  and the events so far. The conversion \<open>float64(n)\<close> of an integer is the parameter
  \<open>float64 :: int \<Rightarrow> 'f\<close> of the definitions below, as \<open>strings.ToUpper\<close> is the parameter
  \<open>ToUpper\<close> of those that resolve the vehicle.
\<close>

record ('e, 'f) st =
  sink :: "gauge \<Rightarrow> 'f"
  trace :: "'e event list"

definition emit :: "'e event \<Rightarrow> ('e, 'f) st \<Rightarrow> ('e, 'f) st" where
  "emit e s = s\<lparr>trace := trace s @ [e]\<rparr>"

definition gauge_Set :: "gauge \<Rightarrow> 'f \<Rightarrow> ('e, 'f) st \<Rightarrow> ('e, 'f) st" where
  "gauge_Set g x s = s\<lparr>sink := (sink s)(g := x)\<rparr>"

text \<open>
  What the remote source answers during one iteration of the loop: the result of
  \<open>identity.Login\<close> (\<open>None\<close> for a \<open>nil\<close> error), of \<open>api.Vehicles\<close> and of the five
  accessors of the provider built for the resolved vehicle.
\<close>

record ('e, 'f) remote =
  identity_Login :: "string \<Rightarrow> string \<Rightarrow> 'e option"
  api_Vehicles :: "'e + Vehicle list"
  provider_Range :: "Vehicle \<Rightarrow> 'e + 64 word"
  provider_Soc :: "Vehicle \<Rightarrow> 'e + 'f"
  provider_Status :: "Vehicle \<Rightarrow> 'e + string"
  provider_FinishTime :: "Vehicle \<Rightarrow> 'e + time"
  provider_Odometer :: "Vehicle \<Rightarrow> 'e + 'f"

text \<open>
  \<open>time.Duration(*pollInterval) * time.Second\<close>: a product of two \<open>int64\<close>, which wraps
  around. \<open>time.Sleep d\<close> pauses for at least \<open>d\<close> and returns at once when \<open>d\<close> is
  negative or zero: \<open>blocks_for d\<close> is the time it blocks at least, in nanoseconds.
\<close>

definition Second :: "64 word" where
  "Second = 1000000000"

definition sleep_duration :: "flags \<Rightarrow> 64 word" where
  "sleep_duration cfg = pollInterval cfg * Second"

definition blocks_for :: "64 word \<Rightarrow> int" where
  "blocks_for d = (if sint d \<le> 0 then 0 else sint d)"

text \<open>
  The five blocks of the loop body that fetch one reading and publish it. Each takes the
  result of its accessor.
\<close>

definition poll_range :: "(int \<Rightarrow> 'f) \<Rightarrow> 'e + 64 word \<Rightarrow> ('e, 'f) st \<Rightarrow> ('e, 'f) st" where
  "poll_range float64 r s =
     (case r of
        Inl err \<Rightarrow> emit (EvLog ''Range Error: '' (LoggedErr err)) (emit (EvFetch evRange) s)
      | Inr rangeKm \<Rightarrow> gauge_Set evRange (float64 (sint rangeKm)) (emit (EvFetch evRange) s))"

definition poll_soc :: "'e + 'f \<Rightarrow> ('e, 'f) st \<Rightarrow> ('e, 'f) st" where
  "poll_soc r s =
     (case r of
        Inl err \<Rightarrow> emit (EvLog ''SoC error: '' (LoggedErr err)) (emit (EvFetch evSoc) s)
      | Inr soc \<Rightarrow> gauge_Set evSoc soc (emit (EvFetch evSoc) s))"

text \<open>
  The \<open>switch statusString.String()\<close>: the argument of \<open>evStatus.Set\<close> in the case that
  matches, \<open>None\<close> in the \<open>default\<close> case.
\<close>

definition status_code :: "string \<Rightarrow> int option" where
  "status_code c =
     (if c = '''' then Some 0
      else if c = ''A'' then Some 1
      else if c = ''B'' then Some 2
      else if c = ''C'' then Some 3
      else if c = ''D'' then Some 4
      else if c = ''E'' then Some 5
      else if c = ''F'' then Some 6
      else None)"

definition poll_status :: "(int \<Rightarrow> 'f) \<Rightarrow> 'e + string \<Rightarrow> ('e, 'f) st \<Rightarrow> ('e, 'f) st" where
  "poll_status float64 r s =
     (case r of
        Inl err \<Rightarrow> emit (EvLog ''Status error: '' (LoggedErr err)) (emit (EvFetch evStatus) s)
      | Inr statusString \<Rightarrow>
          (case status_code statusString of
             Some k \<Rightarrow> gauge_Set evStatus (float64 k) (emit (EvFetch evStatus) s)
           | None \<Rightarrow>
               emit (EvLog ''Unknown status: '' (LoggedStatus statusString))
                 (emit (EvFetch evStatus) s)))"

definition poll_finish_time :: "(int \<Rightarrow> 'f) \<Rightarrow> 'e + time \<Rightarrow> ('e, 'f) st \<Rightarrow> ('e, 'f) st" where
  "poll_finish_time float64 r s =
     (case r of
        Inl err \<Rightarrow>
          emit (EvLog ''Finish time error: '' (LoggedErr err)) (emit (EvFetch evFinishTime) s)
      | Inr finishTime \<Rightarrow>
          gauge_Set evFinishTime (float64 (sint (Unix finishTime))) (emit (EvFetch evFinishTime) s))"

definition poll_odometer :: "'e + 'f \<Rightarrow> ('e, 'f) st \<Rightarrow> ('e, 'f) st" where
  "poll_odometer r s =
     (case r of
        Inl err \<Rightarrow> emit (EvLog ''Odometer error: '' (LoggedErr err)) (emit (EvFetch evOdometer) s)
      | Inr odometer \<Rightarrow> gauge_Set evOdometer odometer (emit (EvFetch evOdometer) s))"

text \<open>
  One iteration of the \<open>for\<close> loop, from the values \<open>g\<close> the gauges hold when it starts: the
  state when it ends, with the events of this iteration. The two \<open>continue\<close> are the two
  branches that end early.
\<close>

definition cycle ::
  "(string \<Rightarrow> string) \<Rightarrow> (int \<Rightarrow> 'f) \<Rightarrow> flags \<Rightarrow> ('e, 'f) remote \<Rightarrow> (gauge \<Rightarrow> 'f) \<Rightarrow>
   ('e, 'f) st" where
  "cycle ToUpper float64 cfg w g =
     (let s1 = emit (EvLogin (username cfg) (token cfg)) \<lparr>sink = g, trace = []\<rparr>
      in case identity_Login w (username cfg) (token cfg) of
           Some err \<Rightarrow> emit (EvSleep (sleep_duration cfg)) (emit (EvLog [] (LoggedErr err)) s1)
         | None \<Rightarrow>
             (let s2 = emit EvVehicles s1
              in case ensureVehicleEx ToUpper (vin cfg) (api_Vehicles w) (\<lambda>v. (VIN v, None)) of
                   Inl err \<Rightarrow>
                     emit (EvSleep (sleep_duration cfg)) (emit (EvLog [] (LoggedResolveErr err)) s2)
                 | Inr vehicle \<Rightarrow>
                     (let s3 = poll_range float64 (provider_Range w vehicle) s2;
                          s4 = poll_soc (provider_Soc w vehicle) s3;
                          s5 = poll_status float64 (provider_Status w vehicle) s4;
                          s6 = poll_finish_time float64 (provider_FinishTime w vehicle) s5;
                          s7 = poll_odometer (provider_Odometer w vehicle) s6
                      in emit (EvSleep (sleep_duration cfg)) s7)))"

text \<open>
  The loop never returns, so it is observed after a number of iterations: \<open>run \<dots> n\<close> is
  the state after \<open>n\<close> of them, from the gauge values \<open>g0\<close>, where \<open>ws k\<close> is what the
  remote source answers during iteration \<open>k\<close>. Nothing but the gauges goes from one
  iteration to the next.
\<close>

fun run ::
  "(string \<Rightarrow> string) \<Rightarrow> (int \<Rightarrow> 'f) \<Rightarrow> flags \<Rightarrow> (nat \<Rightarrow> ('e, 'f) remote) \<Rightarrow> (gauge \<Rightarrow> 'f) \<Rightarrow>
   nat \<Rightarrow> ('e, 'f) st" where
  "run ToUpper float64 cfg ws g0 0 = \<lparr>sink = g0, trace = []\<rparr>"
| "run ToUpper float64 cfg ws g0 (Suc n) =
     (let s = run ToUpper float64 cfg ws g0 n;
          c = cycle ToUpper float64 cfg (ws n) (sink s)
      in \<lparr>sink = sink c, trace = trace s @ trace c\<rparr>)"

text \<open>
  \<open>main\<close> after flag parsing gave \<open>cfg\<close>: with \<open>-version\<close> it prints
  \<open>promVersion.Print("ioniq_exporter")\<close>, the build information under that program name,
  and exits with code 0; otherwise the gauges are created (a new gauge holds 0) and the
  loop runs.
\<close>

datatype printed = VersionInfo string

datatype ('e, 'f) process =
    Exited int "printed list"
  | Polling "('e, 'f) st"

definition main ::
  "(string \<Rightarrow> string) \<Rightarrow> (int \<Rightarrow> 'f) \<Rightarrow> flags \<Rightarrow> (nat \<Rightarrow> ('e, 'f) remote) \<Rightarrow> nat \<Rightarrow>
   ('e, 'f) process" where
  "main ToUpper float64 cfg ws n =
     (if showVersion cfg then Exited 0 [VersionInfo ''ioniq_exporter'']
      else Polling (run ToUpper float64 cfg ws (\<lambda>g. float64 0) n))"

text \<open>
  Whether the iteration that meets the answers \<open>w\<close> reaches the accessor of gauge \<open>x\<close> and
  gets a reading from it.
\<close>

definition fetch_succeeds ::
  "(string \<Rightarrow> string) \<Rightarrow> flags \<Rightarrow> ('e, 'f) remote \<Rightarrow> gauge \<Rightarrow> bool" where
  "fetch_succeeds ToUpper cfg w x =
     (case identity_Login w (username cfg) (token cfg) of
        Some err \<Rightarrow> False
      | None \<Rightarrow>
          (case ensureVehicleEx ToUpper (vin cfg) (api_Vehicles w) (\<lambda>v. (VIN v, None)) of
             Inl err \<Rightarrow> False
           | Inr vehicle \<Rightarrow>
               (case x of
                  evRange \<Rightarrow> \<not> isl (provider_Range w vehicle)
                | evSoc \<Rightarrow> \<not> isl (provider_Soc w vehicle)
                | evStatus \<Rightarrow> \<not> isl (provider_Status w vehicle)
                | evFinishTime \<Rightarrow> \<not> isl (provider_FinishTime w vehicle)
                | evOdometer \<Rightarrow> \<not> isl (provider_Odometer w vehicle))))"

text \<open>The gauges whose accessor was called, in the order of the calls, and the logins.\<close>

fun fetches :: "'e event list \<Rightarrow> gauge list" where
  "fetches [] = []"
| "fetches (EvFetch g # es) = g # fetches es"
| "fetches (e # es) = fetches es"

fun logins :: "'e event list \<Rightarrow> (string \<times> string) list" where
  "logins [] = []"
| "logins (EvLogin u t # es) = (u, t) # logins es"
| "logins (e # es) = logins es"

section \<open>Example inputs\<close>

text \<open>
  Two vehicles (one of them listed a second time), the flags of a user who gave the VIN
  of the first in lower case, and a remote source that answers every call. Gauge values
  are integers here and \<open>float64\<close> is the identity.

  \<open>ToUpper_ascii\<close> is the case mapping of the examples: on a string of ASCII bytes
  \<open>strings.ToUpper\<close> replaces the letters \<open>a\<close> to \<open>z\<close> by \<open>A\<close> to \<open>Z\<close> and keeps every other
  byte. The examples apply it to such strings only, and no general statement is about
  it.
\<close>

definition ToUpper_ascii :: "string \<Rightarrow> string" where
  "ToUpper_ascii s =
     map (\<lambda>c. case map_of (zip ''abcdefghijklmnopqrstuvwxyz'' ''ABCDEFGHIJKLMNOPQRSTUVWXYZ'') c of
               Some u \<Rightarrow> u
             | None \<Rightarrow> c) s"

definition ioniq :: Vehicle where
  "ioniq = \<lparr>VIN = ''ABC123'', VehicleName = ''Ioniq'', VehicleID = ''0001''\<rparr>"

definition kona :: Vehicle where
  "kona = \<lparr>VIN = ''XYZ789'', VehicleName = ''Kona'', VehicleID = ''0002''\<rparr>"

definition kona2 :: Vehicle where
  "kona2 = kona\<lparr>VehicleName := ''Kona (second entry)''\<rparr>"

definition example_flags :: flags where
  "example_flags = flag_defaults\<lparr>vin := ''abc123''\<rparr>"

definition example_remote :: "(string, int) remote" where
  "example_remote =
     \<lparr>identity_Login = (\<lambda>u t. None),
      api_Vehicles = Inr [ioniq],
      provider_Range = (\<lambda>v. Inr 240),
      provider_Soc = (\<lambda>v. Inr 80),
      provider_Status = (\<lambda>v. Inr ''C''),
      provider_FinishTime = (\<lambda>v. Inr (Time 1700000000)),
      provider_Odometer = (\<lambda>v. Inr 12345)\<rparr>"

section \<open>Lemmas on the resolution\<close>

lemma ToUpper_ascii_Nil_iff: "ToUpper_ascii s = [] \<longleftrightarrow> s = []"
  by (simp add: ToUpper_ascii_def)

lemma upper_examples:
  "ToUpper_ascii ''xyz789'' = ''XYZ789''" "ToUpper_ascii ''XYZ789'' = ''XYZ789''"
  "ToUpper_ascii ''ABC123'' = ''ABC123''" "ToUpper_ascii ''abc123'' = ''ABC123''"
  "ToUpper_ascii ''TM...'' = ''TM...''" "ToUpper_ascii ''tm...'' = ''TM...''"
  "ToUpper_ascii ''abc124'' = ''ABC124''" "ToUpper_ascii ''a'' = ''A''"
  "ToUpper_ascii ''b'' = ''B''" "ToUpper_ascii ''B'' = ''B''"
  by (simp_all add: ToUpper_ascii_def)

text \<open>With an extraction that never fails, the scan is a search for the first match.\<close>

lemma scan_total:
  "scan ToUpper u (\<lambda>v. (ident v, None)) vehicles = Inr (find (\<lambda>v. ToUpper (ident v) = u) vehicles)"
  by (induction vehicles) simp_all

lemma scan_error:
  "\<forall>u\<in>set pre. snd (extract u) = None \<and> ToUpper (fst (extract u)) \<noteq> wanted \<Longrightarrow>
   snd (extract x) = Some err \<Longrightarrow>
   scan ToUpper wanted extract (pre @ x # post) = Inl err"
  by (induction pre) (auto split: prod.splits option.splits)

lemma ensureVehicleEx_total:
  "ensureVehicleEx ToUpper wanted (Inr vehicles) (\<lambda>v. (ident v, None)) =
     (if ToUpper wanted \<noteq> [] then
        (case find (\<lambda>v. ToUpper (ident v) = ToUpper wanted) vehicles of
           Some vehicle \<Rightarrow> Inr vehicle
         | None \<Rightarrow> Inl (CannotFindVehicle (map ident vehicles)))
      else if length vehicles = 1 then Inr (vehicles ! 0)
      else Inl (CannotFindVehicle (map ident vehicles)))"
  by (simp add: ensureVehicleEx_def scan_total Let_def split: option.splits)

text \<open>\<open>find\<close> returns the first element that satisfies the test.\<close>

lemma find_first:
  "find P xs = Some r \<longleftrightarrow> (\<exists>pre post. xs = pre @ r # post \<and> P r \<and> (\<forall>u\<in>set pre. \<not> P u))"
proof (induction xs)
  case Nil
  then show ?case by simp
next
  case (Cons x xs)
  show ?case
  proof (cases "P x")
    case True
    have "(\<exists>pre post. x # xs = pre @ r # post \<and> P r \<and> (\<forall>u\<in>set pre. \<not> P u)) \<longleftrightarrow> x = r"
    proof
      assume "\<exists>pre post. x # xs = pre @ r # post \<and> P r \<and> (\<forall>u\<in>set pre. \<not> P u)"
      then obtain pre post where *: "x # xs = pre @ r # post" "\<forall>u\<in>set pre. \<not> P u" by blast
      show "x = r"
      proof (cases pre)
        case Nil
        with * show ?thesis by simp
      next
        case (Cons a as)
        with * True show ?thesis by auto
      qed
    next
      assume "x = r"
      with True have "x # xs = [] @ r # xs \<and> P r \<and> (\<forall>u\<in>set []. \<not> P u)" by simp
      then show "\<exists>pre post. x # xs = pre @ r # post \<and> P r \<and> (\<forall>u\<in>set pre. \<not> P u)" by blast
    qed
    with True show ?thesis by simp
  next
    case False
    have "(\<exists>pre post. x # xs = pre @ r # post \<and> P r \<and> (\<forall>u\<in>set pre. \<not> P u)) \<longleftrightarrow>
          (\<exists>pre post. xs = pre @ r # post \<and> P r \<and> (\<forall>u\<in>set pre. \<not> P u))"
    proof
      assume "\<exists>pre post. x # xs = pre @ r # post \<and> P r \<and> (\<forall>u\<in>set pre. \<not> P u)"
      then obtain pre post where *: "x # xs = pre @ r # post" "P r" "\<forall>u\<in>set pre. \<not> P u" by blast
      show "\<exists>pre post. xs = pre @ r # post \<and> P r \<and> (\<forall>u\<in>set pre. \<not> P u)"
      proof (cases pre)
        case Nil
        with * False show ?thesis by simp
      next
        case (Cons a as)
        with * have "xs = as @ r # post \<and> P r \<and> (\<forall>u\<in>set as. \<not> P u)" by simp
        then show ?thesis by blast
      qed
    next
      assume "\<exists>pre post. xs = pre @ r # post \<and> P r \<and> (\<forall>u\<in>set pre. \<not> P u)"
      then obtain pre post where *: "xs = pre @ r # post" "P r" "\<forall>u\<in>set pre. \<not> P u" by blast
      with False have "x # xs = (x # pre) @ r # post \<and> P r \<and> (\<forall>u\<in>set (x # pre). \<not> P u)" by simp
      then show "\<exists>pre post. x # xs = pre @ r # post \<and> P r \<and> (\<forall>u\<in>set pre. \<not> P u)" by blast
    qed
    with False Cons.IH show ?thesis by simp
  qed
qed

lemma find_none: "find P xs = None \<longleftrightarrow> (\<forall>u\<in>set xs. \<not> P u)"
  by (auto simp: find_None_iff)

lemma resolved_matches:
  assumes "ensureVehicleEx ToUpper wanted (Inr vehicles) (\<lambda>v. (ident v, None)) = Inr r"
    and "ToUpper wanted \<noteq> []"
  shows "ToUpper (ident r) = ToUpper wanted"
proof -
  from assms have "find (\<lambda>v. ToUpper (ident v) = ToUpper wanted) vehicles = Some r"
    by (simp add: ensureVehicleEx_total split: option.splits)
  then show ?thesis by (auto simp: find_first)
qed

lemma example_resolves:
  "ensureVehicleEx ToUpper_ascii ''abc123'' (Inr [ioniq]) (\<lambda>v. (VIN v, None)) = Inr ioniq"
  by (simp add: ensureVehicleEx_def ToUpper_ascii_def ioniq_def)

section \<open>Lemmas on the loop body\<close>

lemma sint_times_Second:
  fixes p :: "64 word"
  assumes "0 \<le> sint p" "sint p \<le> 9223372036"
  shows "sint (p * Second) = sint p * 1000000000"
proof -
  have S: "sint Second = 1000000000" by (simp add: Second_def)
  have "sint (p * Second) = signed_take_bit 63 (sint p * sint Second)"
    by (simp add: sint_word_ariths)
  also have "\<dots> = sint p * sint Second"
    using assms unfolding S by (intro signed_take_bit_int_eq_self) auto
  finally show ?thesis by (simp add: S)
qed

lemma blocks_for_interval:
  "0 \<le> sint (pollInterval cfg) \<Longrightarrow> sint (pollInterval cfg) \<le> 9223372036 \<Longrightarrow>
   blocks_for (sleep_duration cfg) = sint (pollInterval cfg) * 1000000000"
  by (simp add: blocks_for_def sleep_duration_def sint_times_Second)

lemma sink_emit [simp]: "sink (emit e s) = sink s"
  by (simp add: emit_def)

lemma trace_emit [simp]: "trace (emit e s) = trace s @ [e]"
  by (simp add: emit_def)

lemma sink_gauge_Set [simp]: "sink (gauge_Set g x s) = (sink s)(g := x)"
  by (simp add: gauge_Set_def)

lemma trace_gauge_Set [simp]: "trace (gauge_Set g x s) = trace s"
  by (simp add: gauge_Set_def)

lemma fetches_append [simp]: "fetches (es @ es') = fetches es @ fetches es'"
  by (induction es rule: fetches.induct) simp_all

lemma logins_append [simp]: "logins (es @ es') = logins es @ logins es'"
  by (induction es rule: logins.induct) simp_all

text \<open>What each of the five blocks does to the gauges and to the events.\<close>

lemma sink_poll_range:
  "sink (poll_range float64 r s) =
     (case r of Inl err \<Rightarrow> sink s | Inr k \<Rightarrow> (sink s)(evRange := float64 (sint k)))"
  by (simp add: poll_range_def split: sum.splits)

lemma sink_poll_soc:
  "sink (poll_soc r s) = (case r of Inl err \<Rightarrow> sink s | Inr x \<Rightarrow> (sink s)(evSoc := x))"
  by (simp add: poll_soc_def split: sum.splits)

lemma sink_poll_status:
  "sink (poll_status float64 r s) =
     (case r of
        Inl err \<Rightarrow> sink s
      | Inr c \<Rightarrow> (case status_code c of None \<Rightarrow> sink s | Some k \<Rightarrow> (sink s)(evStatus := float64 k)))"
  by (simp add: poll_status_def split: sum.splits option.splits)

lemma sink_poll_finish_time:
  "sink (poll_finish_time float64 r s) =
     (case r of Inl err \<Rightarrow> sink s | Inr t \<Rightarrow> (sink s)(evFinishTime := float64 (sint (Unix t))))"
  by (simp add: poll_finish_time_def split: sum.splits)

lemma sink_poll_odometer:
  "sink (poll_odometer r s) = (case r of Inl err \<Rightarrow> sink s | Inr x \<Rightarrow> (sink s)(evOdometer := x))"
  by (simp add: poll_odometer_def split: sum.splits)

lemmas sink_poll =
  sink_poll_range sink_poll_soc sink_poll_status sink_poll_finish_time sink_poll_odometer

lemma trace_poll_range:
  "trace (poll_range float64 r s) =
     trace s @ EvFetch evRange #
       (case r of Inl err \<Rightarrow> [EvLog ''Range Error: '' (LoggedErr err)] | Inr k \<Rightarrow> [])"
  by (simp add: poll_range_def split: sum.splits)

lemma trace_poll_soc:
  "trace (poll_soc r s) =
     trace s @ EvFetch evSoc #
       (case r of Inl err \<Rightarrow> [EvLog ''SoC error: '' (LoggedErr err)] | Inr x \<Rightarrow> [])"
  by (simp add: poll_soc_def split: sum.splits)

lemma trace_poll_status:
  "trace (poll_status float64 r s) =
     trace s @ EvFetch evStatus #
       (case r of
          Inl err \<Rightarrow> [EvLog ''Status error: '' (LoggedErr err)]
        | Inr c \<Rightarrow>
            (case status_code c of
               None \<Rightarrow> [EvLog ''Unknown status: '' (LoggedStatus c)]
             | Some k \<Rightarrow> []))"
  by (simp add: poll_status_def split: sum.splits option.splits)

lemma trace_poll_finish_time:
  "trace (poll_finish_time float64 r s) =
     trace s @ EvFetch evFinishTime #
       (case r of Inl err \<Rightarrow> [EvLog ''Finish time error: '' (LoggedErr err)] | Inr t \<Rightarrow> [])"
  by (simp add: poll_finish_time_def split: sum.splits)

lemma trace_poll_odometer:
  "trace (poll_odometer r s) =
     trace s @ EvFetch evOdometer #
       (case r of Inl err \<Rightarrow> [EvLog ''Odometer error: '' (LoggedErr err)] | Inr x \<Rightarrow> [])"
  by (simp add: poll_odometer_def split: sum.splits)

lemmas trace_poll =
  trace_poll_range trace_poll_soc trace_poll_status trace_poll_finish_time trace_poll_odometer

text \<open>The three ways an iteration can go.\<close>

lemma cycle_login_failed:
  "identity_Login w (username cfg) (token cfg) = Some err \<Longrightarrow>
   cycle ToUpper float64 cfg w g =
     \<lparr>sink = g,
      trace = [EvLogin (username cfg) (token cfg), EvLog [] (LoggedErr err),
               EvSleep (sleep_duration cfg)]\<rparr>"
  by (simp add: cycle_def emit_def)

lemma cycle_resolve_failed:
  "identity_Login w (username cfg) (token cfg) = None \<Longrightarrow>
   ensureVehicleEx ToUpper (vin cfg) (api_Vehicles w) (\<lambda>v. (VIN v, None)) = Inl e \<Longrightarrow>
   cycle ToUpper float64 cfg w g =
     \<lparr>sink = g,
      trace = [EvLogin (username cfg) (token cfg), EvVehicles, EvLog [] (LoggedResolveErr e),
               EvSleep (sleep_duration cfg)]\<rparr>"
  by (simp add: cycle_def emit_def)

lemma cycle_polled:
  "identity_Login w (username cfg) (token cfg) = None \<Longrightarrow>
   ensureVehicleEx ToUpper (vin cfg) (api_Vehicles w) (\<lambda>v. (VIN v, None)) = Inr v \<Longrightarrow>
   cycle ToUpper float64 cfg w g =
     emit (EvSleep (sleep_duration cfg))
       (poll_odometer (provider_Odometer w v)
         (poll_finish_time float64 (provider_FinishTime w v)
           (poll_status float64 (provider_Status w v)
             (poll_soc (provider_Soc w v)
               (poll_range float64 (provider_Range w v)
                 (emit EvVehicles
                   (emit (EvLogin (username cfg) (token cfg)) \<lparr>sink = g, trace = []\<rparr>)))))))"
  by (simp add: cycle_def)

text \<open>The gauges after an iteration that reached the five accessors.\<close>

lemma sink_cycle_polled:
  assumes "identity_Login w (username cfg) (token cfg) = None"
    and "ensureVehicleEx ToUpper (vin cfg) (api_Vehicles w) (\<lambda>v. (VIN v, None)) = Inr v"
  shows "sink (cycle ToUpper float64 cfg w g) evRange =
           (case provider_Range w v of Inl err \<Rightarrow> g evRange | Inr k \<Rightarrow> float64 (sint k))"
    and "sink (cycle ToUpper float64 cfg w g) evSoc =
           (case provider_Soc w v of Inl err \<Rightarrow> g evSoc | Inr x \<Rightarrow> x)"
    and "sink (cycle ToUpper float64 cfg w g) evStatus =
           (case provider_Status w v of
              Inl err \<Rightarrow> g evStatus
            | Inr c \<Rightarrow> (case status_code c of None \<Rightarrow> g evStatus | Some k \<Rightarrow> float64 k))"
    and "sink (cycle ToUpper float64 cfg w g) evFinishTime =
           (case provider_FinishTime w v of
              Inl err \<Rightarrow> g evFinishTime
            | Inr t \<Rightarrow> float64 (sint (Unix t)))"
    and "sink (cycle ToUpper float64 cfg w g) evOdometer =
           (case provider_Odometer w v of Inl err \<Rightarrow> g evOdometer | Inr x \<Rightarrow> x)"
  by (simp_all add: cycle_polled [OF assms] sink_poll split: sum.splits option.splits)

lemma fetches_cycle_polled:
  assumes "identity_Login w (username cfg) (token cfg) = None"
    and "ensureVehicleEx ToUpper (vin cfg) (api_Vehicles w) (\<lambda>v. (VIN v, None)) = Inr v"
  shows "fetches (trace (cycle ToUpper float64 cfg w g)) =
           [evRange, evSoc, evStatus, evFinishTime, evOdometer]"
  by (simp add: cycle_polled [OF assms] trace_poll split: sum.splits option.splits)

lemma sink_cycle_not_fetched:
  assumes "\<not> fetch_succeeds ToUpper cfg w x"
  shows "sink (cycle ToUpper float64 cfg w g) x = g x"
proof (cases "identity_Login w (username cfg) (token cfg)")
  case (Some err)
  then show ?thesis by (simp add: cycle_login_failed)
next
  case None
  show ?thesis
  proof (cases "ensureVehicleEx ToUpper (vin cfg) (api_Vehicles w) (\<lambda>v. (VIN v, None))")
    case (Inl e)
    with None show ?thesis by (simp add: cycle_resolve_failed)
  next
    case (Inr v)
    from assms None Inr show ?thesis
      by (cases x) (auto simp: fetch_succeeds_def sink_cycle_polled [OF None Inr] split: sum.splits)
  qed
qed

lemma sink_run_not_fetched:
  "(\<forall>k<j. \<not> fetch_succeeds ToUpper cfg (ws (n + k)) x) \<Longrightarrow>
   sink (run ToUpper float64 cfg ws g0 (n + j)) x = sink (run ToUpper float64 cfg ws g0 n) x"
proof (induction j)
  case 0
  then show ?case by simp
next
  case (Suc j)
  then have "\<not> fetch_succeeds ToUpper cfg (ws (n + j)) x" by simp
  then have "sink (run ToUpper float64 cfg ws g0 (Suc (n + j))) x = sink (run ToUpper float64 cfg ws g0 (n + j)) x"
    by (simp add: Let_def sink_cycle_not_fetched)
  with Suc show ?case by simp
qed

text \<open>
  Every iteration begins with the login and ends with the one call of \<open>time.Sleep\<close>.
\<close>

lemma trace_cycle_shape:
  "\<exists>evs. trace (cycle ToUpper float64 cfg w g) =
           EvLogin (username cfg) (token cfg) # evs @ [EvSleep (sleep_duration cfg)] \<and>
         (\<forall>d. EvSleep d \<notin> set evs) \<and> logins evs = []"
proof (cases "identity_Login w (username cfg) (token cfg)")
  case (Some err)
  then have "trace (cycle ToUpper float64 cfg w g) =
      EvLogin (username cfg) (token cfg) # [EvLog [] (LoggedErr err)] @ [EvSleep (sleep_duration cfg)]"
    by (simp add: cycle_login_failed)
  moreover have "(\<forall>d. EvSleep d \<notin> set [EvLog [] (LoggedErr err)]) \<and>
      logins [EvLog [] (LoggedErr err)] = []"
    by simp
  ultimately show ?thesis by blast
next
  case None
  show ?thesis
  proof (cases "ensureVehicleEx ToUpper (vin cfg) (api_Vehicles w) (\<lambda>v. (VIN v, None))")
    case (Inl e)
    with None have "trace (cycle ToUpper float64 cfg w g) =
        EvLogin (username cfg) (token cfg) # [EvVehicles, EvLog [] (LoggedResolveErr e)] @
        [EvSleep (sleep_duration cfg)]"
      by (simp add: cycle_resolve_failed)
    moreover have "(\<forall>d. EvSleep d \<notin> set [EvVehicles, EvLog [] (LoggedResolveErr e)]) \<and>
        logins [EvVehicles, EvLog [] (LoggedResolveErr e)] = []"
      by simp
    ultimately show ?thesis by blast
  next
    case (Inr v)
    let ?evs = "butlast (tl (trace (cycle ToUpper float64 cfg w g)))"
    have T: "trace (cycle ToUpper float64 cfg w g) =
        EvLogin (username cfg) (token cfg) # ?evs @ [EvSleep (sleep_duration cfg)]"
      by (simp add: cycle_polled [OF None Inr] trace_poll butlast_append)
    have "(\<forall>d. EvSleep d \<notin> set ?evs) \<and> logins ?evs = []"
      by (simp add: cycle_polled [OF None Inr] trace_poll butlast_append
          split: sum.splits option.splits)
    with T show ?thesis by blast
  qed
qed

lemma trace_cycle_vehicles:
  assumes L: "identity_Login w (username cfg) (token cfg) = None"
  shows "\<exists>evs. trace (cycle ToUpper float64 cfg w g) = EvLogin (username cfg) (token cfg) # EvVehicles # evs"
proof (cases "ensureVehicleEx ToUpper (vin cfg) (api_Vehicles w) (\<lambda>v. (VIN v, None))")
  case (Inl e)
  with L show ?thesis by (simp add: cycle_resolve_failed)
next
  case (Inr v)
  show ?thesis by (simp add: cycle_polled [OF L Inr] trace_poll)
qed

lemma logins_cycle:
  "logins (trace (cycle ToUpper float64 cfg w g)) = [(username cfg, token cfg)]"
proof -
  obtain evs where "trace (cycle ToUpper float64 cfg w g) =
      EvLogin (username cfg) (token cfg) # evs @ [EvSleep (sleep_duration cfg)]"
    and "logins evs = []"
    using trace_cycle_shape [of ToUpper float64 cfg w g] by blast
  then show ?thesis by simp
qed

lemma logins_run:
  "logins (trace (run ToUpper float64 cfg ws g0 n)) = replicate n (username cfg, token cfg)"
  by (induction n) (simp_all add: Let_def logins_cycle replicate_append_same)

text \<open>
  Every iteration, whatever happened before it, adds to the events a login, then events
  that are neither a login nor a sleep, then the one sleep, of the same duration each
  time. For a configured interval up to 9223372036 seconds that sleep blocks for the
  interval at least, and for exactly the interval when it is not negative.
\<close>

lemma sleep_ends_iteration:
  "(\<exists>evs. trace (run ToUpper float64 cfg ws g0 (Suc n)) =
            trace (run ToUpper float64 cfg ws g0 n) @
            EvLogin (username cfg) (token cfg) # evs @ [EvSleep (sleep_duration cfg)] \<and>
          (\<forall>d. EvSleep d \<notin> set evs) \<and> logins evs = []) \<and>
   (sint (pollInterval cfg) \<le> 9223372036 \<longrightarrow>
      sint (pollInterval cfg) * 1000000000 \<le> blocks_for (sleep_duration cfg)) \<and>
   (0 \<le> sint (pollInterval cfg) \<and> sint (pollInterval cfg) \<le> 9223372036 \<longrightarrow>
      blocks_for (sleep_duration cfg) = sint (pollInterval cfg) * 1000000000)"
proof -
  obtain evs where "trace (cycle ToUpper float64 cfg (ws n) (sink (run ToUpper float64 cfg ws g0 n))) =
      EvLogin (username cfg) (token cfg) # evs @ [EvSleep (sleep_duration cfg)]"
    and "\<forall>d. EvSleep d \<notin> set evs" and "logins evs = []"
    using trace_cycle_shape [of ToUpper float64 cfg "ws n" "sink (run ToUpper float64 cfg ws g0 n)"]
    by blast
  then have A: "\<exists>evs. trace (run ToUpper float64 cfg ws g0 (Suc n)) =
            trace (run ToUpper float64 cfg ws g0 n) @
            EvLogin (username cfg) (token cfg) # evs @ [EvSleep (sleep_duration cfg)] \<and>
          (\<forall>d. EvSleep d \<notin> set evs) \<and> logins evs = []"
    by (simp add: Let_def)
  have B: "sint (pollInterval cfg) * 1000000000 \<le> blocks_for (sleep_duration cfg)"
    if "sint (pollInterval cfg) \<le> 9223372036"
  proof (cases "0 \<le> sint (pollInterval cfg)")
    case True
    with that show ?thesis by (simp add: blocks_for_interval)
  next
    case False
    then have "sint (pollInterval cfg) * 1000000000 \<le> 0" by simp
    moreover have "0 \<le> blocks_for (sleep_duration cfg)" by (simp add: blocks_for_def)
    ultimately show ?thesis by simp
  qed
  from A B show ?thesis
    by (simp add: blocks_for_interval)
qed

text \<open>The example inputs, evaluated.\<close>

lemma example_login [simp]:
  "identity_Login example_remote u t = None"
  by (simp add: example_remote_def)

lemma example_flags_simps [simp]:
  "vin example_flags = ''abc123''" "username example_flags = ''user@example.com''"
  "token example_flags = ''secret1234''" "pollInterval example_flags = 60"
  by (simp_all add: example_flags_def flag_defaults_def)

lemma example_remote_simps [simp]:
  "api_Vehicles example_remote = Inr [ioniq]"
  "provider_Range example_remote v = Inr 240"
  "provider_Soc example_remote v = Inr 80"
  "provider_Status example_remote v = Inr ''C''"
  "provider_FinishTime example_remote v = Inr (Time 1700000000)"
  "provider_Odometer example_remote v = Inr 12345"
  by (simp_all add: example_remote_def)

section \<open>The claims\<close>

text \<open>
  C1. Resolution succeeds in exactly two cases. With a non-empty filter it returns the first
  vehicle of the list, in list order, whose identifier equals the filter once
  \<open>strings.ToUpper\<close> is applied to both; with an empty filter it returns the vehicle of a
  list of exactly one. Identifiers that occur twice are not merged: the first match is
  returned. The list is the one \<open>list()\<close> returned and the extraction is one that never
  fails, as the one \<open>main\<close> passes (\<open>return v.VIN, nil\<close>).
\<close>

theorem resolve_succeeds_iff:
  assumes "\<And>s. ToUpper s = [] \<longleftrightarrow> s = []"
  shows "ensureVehicleEx ToUpper wanted (Inr vehicles) (\<lambda>v. (ident v, None)) = Inr r \<longleftrightarrow>
     (wanted \<noteq> [] \<and>
      (\<exists>pre post. vehicles = pre @ r # post \<and> ToUpper (ident r) = ToUpper wanted \<and>
         (\<forall>u\<in>set pre. ToUpper (ident u) \<noteq> ToUpper wanted)))
     \<or> (wanted = [] \<and> vehicles = [r])"
proof (cases "wanted = []")
  case True
  have "length vehicles = 1 \<and> vehicles ! 0 = r \<longleftrightarrow> vehicles = [r]"
    by (cases vehicles) auto
  with True show ?thesis by (auto simp: ensureVehicleEx_total assms)
next
  case False
  let ?P = "\<lambda>v. ToUpper (ident v) = ToUpper wanted"
  have "ensureVehicleEx ToUpper wanted (Inr vehicles) (\<lambda>v. (ident v, None)) = Inr r \<longleftrightarrow>
        find ?P vehicles = Some r"
    using False by (simp add: ensureVehicleEx_total assms split: option.splits)
  also have "\<dots> \<longleftrightarrow> (\<exists>pre post. vehicles = pre @ r # post \<and> ?P r \<and> (\<forall>u\<in>set pre. \<not> ?P u))"
    by (rule find_first)
  finally show ?thesis using False by simp
qed

theorem resolve_succeeds_witness:
  "ensureVehicleEx ToUpper_ascii ''xyz789'' (Inr [ioniq, kona, kona2] :: string + Vehicle list)
     (\<lambda>v. (VIN v, None)) = Inr kona \<and>
   ensureVehicleEx ToUpper_ascii [] (Inr [ioniq] :: string + Vehicle list) (\<lambda>v. (VIN v, None))
     = Inr ioniq"
proof
  have "[ioniq, kona, kona2] = [ioniq] @ kona # [kona2] \<and>
        ToUpper_ascii (VIN kona) = ToUpper_ascii ''xyz789'' \<and>
        (\<forall>u\<in>set [ioniq]. ToUpper_ascii (VIN u) \<noteq> ToUpper_ascii ''xyz789'')"
    by (simp add: ioniq_def kona_def upper_examples)
  then have "\<exists>pre post. [ioniq, kona, kona2] = pre @ kona # post \<and>
        ToUpper_ascii (VIN kona) = ToUpper_ascii ''xyz789'' \<and>
        (\<forall>u\<in>set pre. ToUpper_ascii (VIN u) \<noteq> ToUpper_ascii ''xyz789'')"
    by blast
  then show "ensureVehicleEx ToUpper_ascii ''xyz789''
      (Inr [ioniq, kona, kona2] :: string + Vehicle list) (\<lambda>v. (VIN v, None)) = Inr kona"
    by (simp add: resolve_succeeds_iff [OF ToUpper_ascii_Nil_iff])
next
  show "ensureVehicleEx ToUpper_ascii [] (Inr [ioniq] :: string + Vehicle list)
      (\<lambda>v. (VIN v, None)) = Inr ioniq"
    by (simp add: resolve_succeeds_iff [OF ToUpper_ascii_Nil_iff])
qed

text \<open>
  C2, as the spec states it: a filter that matches nothing fails with one kind of failure,
  NotFound, and an empty filter on a list of not exactly one element with another,
  Ambiguous. It is not so: the code has one failure for both. Here a filter that matches
  neither of two vehicles and the empty filter on the same two vehicles fail with the
  same error, "cannot find vehicle, got: [ABC123 XYZ789]".
\<close>

theorem resolve_failure_kinds_counterexample:
  "ensureVehicleEx ToUpper_ascii ''tm...'' (Inr [ioniq, kona] :: string + Vehicle list)
     (\<lambda>v. (VIN v, None)) = Inl (CannotFindVehicle [''ABC123'', ''XYZ789'']) \<and>
   ensureVehicleEx ToUpper_ascii [] (Inr [ioniq, kona] :: string + Vehicle list)
     (\<lambda>v. (VIN v, None)) = Inl (CannotFindVehicle [''ABC123'', ''XYZ789''])"
  by (simp add: ensureVehicleEx_def ToUpper_ascii_def ioniq_def kona_def)

text \<open>
  C2, amended. For the list that \<open>list()\<close> returned and an extraction that never fails,
  resolution fails exactly when the filter is non-empty and no identifier equals it once
  \<open>strings.ToUpper\<close> is applied to both, or the filter is empty and the list has not
  exactly one element (none and several alike). In both cases the failure is the one
  error "cannot find vehicle, got: \<dots>", which carries the identifiers of all the
  vehicles of the list, in list order.
\<close>

theorem resolve_fails_iff:
  assumes "\<And>s. ToUpper s = [] \<longleftrightarrow> s = []"
  shows "ensureVehicleEx ToUpper wanted (Inr vehicles) (\<lambda>v. (ident v, None)) = Inl e \<longleftrightarrow>
     ((wanted \<noteq> [] \<and> (\<forall>u\<in>set vehicles. ToUpper (ident u) \<noteq> ToUpper wanted))
      \<or> (wanted = [] \<and> length vehicles \<noteq> 1))
     \<and> e = CannotFindVehicle (map ident vehicles)"
proof (cases "wanted = []")
  case True
  then show ?thesis by (auto simp: ensureVehicleEx_total assms)
next
  case False
  let ?P = "\<lambda>v. ToUpper (ident v) = ToUpper wanted"
  have "ensureVehicleEx ToUpper wanted (Inr vehicles) (\<lambda>v. (ident v, None)) = Inl e \<longleftrightarrow>
        find ?P vehicles = None \<and> e = CannotFindVehicle (map ident vehicles)"
    using False by (auto simp: ensureVehicleEx_total assms split: option.splits)
  then show ?thesis using False by (simp add: find_none)
qed

theorem resolve_fails_witness:
  "ensureVehicleEx ToUpper_ascii ''abc124'' (Inr [ioniq, kona] :: string + Vehicle list)
     (\<lambda>v. (VIN v, None)) = Inl (CannotFindVehicle [''ABC123'', ''XYZ789'']) \<and>
   ensureVehicleEx ToUpper_ascii ''abc123'' (Inr [ioniq, kona] :: string + Vehicle list)
     (\<lambda>v. (VIN v, None)) \<noteq> Inl (CannotFindVehicle [''ABC123'', ''XYZ789'']) \<and>
   ensureVehicleEx ToUpper_ascii [] (Inr [] :: string + Vehicle list) (\<lambda>v. (VIN v, None))
     = Inl (CannotFindVehicle []) \<and>
   ensureVehicleEx ToUpper_ascii [] (Inr [ioniq, kona] :: string + Vehicle list)
     (\<lambda>v. (VIN v, None)) = Inl (CannotFindVehicle [''ABC123'', ''XYZ789''])"
  by (simp add: resolve_fails_iff [OF ToUpper_ascii_Nil_iff] ioniq_def kona_def upper_examples)

text \<open>
  C3. The status mapping is a fixed table: the code \<open>""\<close> gives 0 and the codes \<open>"A"\<close> to
  \<open>"F"\<close> give 1 to 6. A status read with a code of the table sets the status gauge to that
  number and writes no log line. For any other code the gauges are left as they were and
  one log line "Unknown status: " with the code is written.
\<close>

theorem status_mapping:
  "status_code '''' = Some 0 \<and> status_code ''A'' = Some 1 \<and> status_code ''B'' = Some 2 \<and>
   status_code ''C'' = Some 3 \<and> status_code ''D'' = Some 4 \<and> status_code ''E'' = Some 5 \<and>
   status_code ''F'' = Some 6 \<and>
   (c \<notin> {'''', ''A'', ''B'', ''C'', ''D'', ''E'', ''F''} \<longrightarrow> status_code c = None) \<and>
   (status_code c = Some k \<longrightarrow>
      sink (poll_status float64 (Inr c) s) = (sink s)(evStatus := float64 k) \<and>
      trace (poll_status float64 (Inr c) s) = trace s @ [EvFetch evStatus]) \<and>
   (status_code c = None \<longrightarrow>
      sink (poll_status float64 (Inr c) s) = sink s \<and>
      trace (poll_status float64 (Inr c) s) =
        trace s @ [EvFetch evStatus, EvLog ''Unknown status: '' (LoggedStatus c)])"
  by (simp add: status_code_def sink_poll_status trace_poll_status)

theorem status_mapping_witness:
  "''G'' \<notin> {'''', ''A'', ''B'', ''C'', ''D'', ''E'', ''F''} \<and> status_code ''G'' = None \<and>
   sink (poll_status (\<lambda>n. n) (Inr ''G'' :: string + string) \<lparr>sink = (\<lambda>g. 7), trace = []\<rparr>) evStatus = 7 \<and>
   trace (poll_status (\<lambda>n. n) (Inr ''G'' :: string + string) \<lparr>sink = (\<lambda>g. 7), trace = []\<rparr>) =
     [EvFetch evStatus, EvLog ''Unknown status: '' (LoggedStatus ''G'')] \<and>
   status_code ''C'' = Some 3 \<and>
   sink (poll_status (\<lambda>n. n) (Inr ''C'' :: string + string) \<lparr>sink = (\<lambda>g. 7), trace = []\<rparr>) evStatus = 3"
  using status_mapping [of "''G''" 0 "\<lambda>n. n" "\<lparr>sink = (\<lambda>g. 7), trace = []\<rparr> :: (string, int) st"]
    status_mapping [of "''C''" 3 "\<lambda>n. n" "\<lparr>sink = (\<lambda>g. 7), trace = []\<rparr> :: (string, int) st"]
  by simp

text \<open>
  C4, as the spec states it: without a \<open>-vin\<close> flag the filter is empty and the exporter
  takes the single vehicle of the account. It is not so: the default of the flag is the
  text \<open>TM...\<close>, and with it the single vehicle \<open>ABC123\<close> of an account is not found.
\<close>

theorem default_vin_counterexample:
  "vin flag_defaults \<noteq> [] \<and>
   ensureVehicleEx ToUpper_ascii (vin flag_defaults) (Inr [ioniq] :: string + Vehicle list)
     (\<lambda>v. (VIN v, None)) = Inl (CannotFindVehicle [''ABC123''])"
  by (simp add: flag_defaults_def ensureVehicleEx_def ToUpper_ascii_def ioniq_def)

text \<open>
  C4, amended. The defaults are the listen address \<open>:9333\<close>, a poll interval of 60 seconds
  and the filter \<open>TM...\<close>, so that without a \<open>-vin\<close> flag only a vehicle whose VIN equals
  \<open>TM...\<close> once \<open>strings.ToUpper\<close> is applied to both is resolved (\<open>strings.ToUpper\<close> of
  \<open>TM...\<close> is not empty). With \<open>-version\<close> the program prints its build information and
  exits with code 0, whatever the other flags, and the loop does not run.
\<close>

theorem flag_defaults_and_version:
  "listenAddr flag_defaults = '':9333'' \<and> sint (pollInterval flag_defaults) = 60 \<and>
   vin flag_defaults = ''TM...'' \<and> \<not> showVersion flag_defaults \<and>
   (ToUpper ''TM...'' \<noteq> [] \<and>
    ensureVehicleEx ToUpper (vin flag_defaults) (Inr vehicles) (\<lambda>v. (VIN v, None)) = Inr r
      \<longrightarrow> ToUpper (VIN r) = ToUpper ''TM...'') \<and>
   (showVersion cfg \<longrightarrow> main ToUpper float64 cfg ws n = Exited 0 [VersionInfo ''ioniq_exporter''])"
proof -
  have "ToUpper (VIN r) = ToUpper ''TM...''"
    if "ensureVehicleEx ToUpper ''TM...'' (Inr vehicles) (\<lambda>v. (VIN v, None)) = Inr r"
      and "ToUpper ''TM...'' \<noteq> []"
    using resolved_matches [OF that] .
  then show ?thesis
    by (auto simp: flag_defaults_def main_def)
qed

theorem flag_defaults_and_version_witness:
  "showVersion (flag_defaults\<lparr>showVersion := True\<rparr>) \<and>
   main ToUpper_ascii (\<lambda>n. n) (flag_defaults\<lparr>showVersion := True\<rparr>) (\<lambda>k. example_remote) 5 =
     Exited 0 [VersionInfo ''ioniq_exporter''] \<and>
   ToUpper_ascii ''TM...'' \<noteq> [] \<and>
   ensureVehicleEx ToUpper_ascii (vin flag_defaults)
     (Inr [ioniq\<lparr>VIN := ''tm...''\<rparr>] :: string + Vehicle list)
     (\<lambda>v. (VIN v, None)) = Inr (ioniq\<lparr>VIN := ''tm...''\<rparr>) \<and>
   ToUpper_ascii (VIN (ioniq\<lparr>VIN := ''tm...''\<rparr>)) = ''TM...''"
proof -
  have N: "ToUpper_ascii ''TM...'' \<noteq> []"
    by (simp add: upper_examples)
  have R: "ensureVehicleEx ToUpper_ascii (vin flag_defaults)
     (Inr [ioniq\<lparr>VIN := ''tm...''\<rparr>] :: string + Vehicle list)
     (\<lambda>v. (VIN v, None)) = Inr (ioniq\<lparr>VIN := ''tm...''\<rparr>)"
    by (simp add: flag_defaults_def ensureVehicleEx_def ToUpper_ascii_def)
  have S: "showVersion (flag_defaults\<lparr>showVersion := True\<rparr>)"
    by simp
  have "ToUpper_ascii (VIN (ioniq\<lparr>VIN := ''tm...''\<rparr>)) = ToUpper_ascii ''TM...''"
    by (rule flag_defaults_and_version [THEN conjunct2, THEN conjunct2, THEN conjunct2,
          THEN conjunct2, THEN conjunct1, THEN mp, OF conjI [OF N R]])
  then have U: "ToUpper_ascii (VIN (ioniq\<lparr>VIN := ''tm...''\<rparr>)) = ''TM...''"
    by (simp add: upper_examples)
  have M: "main ToUpper_ascii (\<lambda>n. n) (flag_defaults\<lparr>showVersion := True\<rparr>)
      (\<lambda>k. example_remote) 5 = Exited 0 [VersionInfo ''ioniq_exporter'']"
    by (rule flag_defaults_and_version [THEN conjunct2, THEN conjunct2, THEN conjunct2,
          THEN conjunct2, THEN conjunct2, THEN mp, OF S])
  show ?thesis
    using N R S U M by simp
qed

text \<open>
  C5, as the spec states it: a fetch that succeeds overwrites its own gauge. It is not so
  for the status: here every fetch of the iteration succeeds, the status read is \<open>"G"\<close>,
  and the status gauge still holds the 7 it held before.
\<close>

theorem sink_overwritten_counterexample:
  "fetch_succeeds ToUpper_ascii example_flags (example_remote\<lparr>provider_Status := (\<lambda>v. Inr ''G'')\<rparr>) evStatus \<and>
   sink (cycle ToUpper_ascii (\<lambda>n. n) example_flags
      (example_remote\<lparr>provider_Status := (\<lambda>v. Inr ''G'')\<rparr>) (\<lambda>g. 7)) evStatus = 7"
  by (simp add: fetch_succeeds_def cycle_def example_resolves example_remote_def poll_range_def
      poll_soc_def poll_status_def poll_finish_time_def poll_odometer_def status_code_def
      emit_def gauge_Set_def)

text \<open>
  C5, amended. Each of the five blocks, when its fetch succeeds, overwrites its own gauge
  and no other, the status block only when the code read is in the table (with another
  code it writes no gauge); when its fetch fails it writes no gauge. An iteration in
  which the fetch for a gauge does not succeed, because it fails or because the
  iteration ended before it, leaves that gauge as it was, and so does any number of
  such iterations one after the other: a value that was set stays until a later
  successful reading overwrites it.
\<close>

theorem sink_overwritten_or_kept:
  "sink (poll_range float64 (Inr k) s) = (sink s)(evRange := float64 (sint k)) \<and>
   sink (poll_soc (Inr y) s) = (sink s)(evSoc := y) \<and>
   (status_code c = Some i \<longrightarrow>
      sink (poll_status float64 (Inr c) s) = (sink s)(evStatus := float64 i)) \<and>
   (status_code c = None \<longrightarrow> sink (poll_status float64 (Inr c) s) = sink s) \<and>
   sink (poll_finish_time float64 (Inr t) s) = (sink s)(evFinishTime := float64 (sint (Unix t))) \<and>
   sink (poll_odometer (Inr y) s) = (sink s)(evOdometer := y) \<and>
   sink (poll_range float64 (Inl err) s) = sink s \<and>
   sink (poll_soc (Inl err) s) = sink s \<and>
   sink (poll_status float64 (Inl err) s) = sink s \<and>
   sink (poll_finish_time float64 (Inl err) s) = sink s \<and>
   sink (poll_odometer (Inl err) s) = sink s \<and>
   (\<not> fetch_succeeds ToUpper cfg w x \<longrightarrow> sink (cycle ToUpper float64 cfg w g) x = g x) \<and>
   ((\<forall>k<j. \<not> fetch_succeeds ToUpper cfg (ws (n + k)) x) \<longrightarrow>
      sink (run ToUpper float64 cfg ws g0 (n + j)) x = sink (run ToUpper float64 cfg ws g0 n) x)"
  by (simp add: sink_poll sink_cycle_not_fetched sink_run_not_fetched)

theorem sink_overwritten_or_kept_witness:
  "\<not> fetch_succeeds ToUpper_ascii example_flags (example_remote\<lparr>provider_Soc := (\<lambda>v. Inl ''timeout'')\<rparr>) evSoc \<and>
   sink (cycle ToUpper_ascii (\<lambda>n. n) example_flags
      (example_remote\<lparr>provider_Soc := (\<lambda>v. Inl ''timeout'')\<rparr>) (\<lambda>g. 7)) evSoc = 7 \<and>
   sink (run ToUpper_ascii (\<lambda>n. n) example_flags
      (\<lambda>k. if k = 0 then example_remote
           else example_remote\<lparr>provider_Soc := (\<lambda>v. Inl ''timeout'')\<rparr>) (\<lambda>g. 0) (1 + 2)) evSoc =
   sink (run ToUpper_ascii (\<lambda>n. n) example_flags
      (\<lambda>k. if k = 0 then example_remote
           else example_remote\<lparr>provider_Soc := (\<lambda>v. Inl ''timeout'')\<rparr>) (\<lambda>g. 0) 1) evSoc \<and>
   sink (run ToUpper_ascii (\<lambda>n. n) example_flags
      (\<lambda>k. if k = 0 then example_remote
           else example_remote\<lparr>provider_Soc := (\<lambda>v. Inl ''timeout'')\<rparr>) (\<lambda>g. 0) 1) evSoc = 80 \<and>
   status_code ''C'' = Some 3 \<and>
   sink (poll_status (\<lambda>n. n) (Inr ''C'' :: string + string) \<lparr>sink = (\<lambda>g. 7), trace = []\<rparr>) =
     (\<lambda>g. 7)(evStatus := 3)"
proof -
  let ?w = "example_remote\<lparr>provider_Soc := (\<lambda>v. Inl ''timeout'')\<rparr>"
  let ?ws = "\<lambda>k::nat. if k = 0 then example_remote else ?w"
  have F: "\<not> fetch_succeeds ToUpper_ascii example_flags ?w evSoc"
    by (simp add: fetch_succeeds_def example_remote_def example_resolves)
  have A: "\<forall>k<2. \<not> fetch_succeeds ToUpper_ascii example_flags (?ws (1 + k)) evSoc"
    using F by simp
  have R: "sink (run ToUpper_ascii (\<lambda>n. n) example_flags ?ws (\<lambda>g. 0) 1) evSoc = 80"
    by (simp add: Let_def cycle_def example_resolves poll_range_def poll_soc_def
      poll_status_def poll_finish_time_def poll_odometer_def status_code_def emit_def gauge_Set_def)
  have S: "status_code ''C'' = Some 3"
    by (simp add: status_code_def)
  show ?thesis
    using sink_overwritten_or_kept [where ToUpper = ToUpper_ascii and ?float64.0 = "\<lambda>n. n"
        and s = "\<lparr>sink = (\<lambda>g. 7), trace = []\<rparr> :: (string, int) st" and k = 0 and y = 0
        and c = "''C''" and i = 3 and t = "Time 0" and err = "''timeout''"
        and cfg = example_flags and w = ?w and x = evSoc and g = "\<lambda>g. 7" and j = 2
        and ws = ?ws and n = 1 and g0 = "\<lambda>g. 0"] F A R S
    by simp
qed

text \<open>
  C6, as the spec states it: when exactly one fetch fails, the four other gauges are set
  afresh. It is not so when the status read has a code outside the table: here only the
  range fetch fails, the status fetch returns \<open>"G"\<close>, and the status gauge keeps its 7
  like the range gauge, while the three others are set.
\<close>

theorem fetches_isolated_counterexample:
  "provider_Range (example_remote\<lparr>provider_Range := (\<lambda>v. Inl ''timeout''),
      provider_Status := (\<lambda>v. Inr ''G'')\<rparr>) ioniq = Inl ''timeout'' \<and>
   provider_Status (example_remote\<lparr>provider_Range := (\<lambda>v. Inl ''timeout''),
      provider_Status := (\<lambda>v. Inr ''G'')\<rparr>) ioniq = Inr ''G'' \<and>
   map (sink (cycle ToUpper_ascii (\<lambda>n. n) example_flags
      (example_remote\<lparr>provider_Range := (\<lambda>v. Inl ''timeout''),
         provider_Status := (\<lambda>v. Inr ''G'')\<rparr>) (\<lambda>g. 7)))
     [evRange, evSoc, evStatus, evFinishTime, evOdometer] = [7, 80, 7, 1700000000, 12345]"
  by (simp add: cycle_def example_resolves example_remote_def poll_range_def poll_soc_def
      poll_status_def poll_finish_time_def poll_odometer_def status_code_def emit_def gauge_Set_def)

text \<open>
  C6, amended. In an iteration that logged in and resolved its vehicle, the five accessors
  are all called, in the order range, state of charge, status, finish time, odometer,
  whichever of them fail; and each one that returns a reading sets its own gauge to it,
  the status one when the code read is in the table. So if exactly one fetch fails, the
  other gauges hold the readings of this iteration, the status gauge under that
  condition.
\<close>

theorem fetches_isolated:
  assumes "identity_Login w (username cfg) (token cfg) = None"
    and "ensureVehicleEx ToUpper (vin cfg) (api_Vehicles w) (\<lambda>v. (VIN v, None)) = Inr v"
  shows "fetches (trace (cycle ToUpper float64 cfg w g)) = [evRange, evSoc, evStatus, evFinishTime, evOdometer] \<and>
     (\<forall>k. provider_Range w v = Inr k \<longrightarrow> sink (cycle ToUpper float64 cfg w g) evRange = float64 (sint k)) \<and>
     (\<forall>y. provider_Soc w v = Inr y \<longrightarrow> sink (cycle ToUpper float64 cfg w g) evSoc = y) \<and>
     (\<forall>c i. provider_Status w v = Inr c \<and> status_code c = Some i \<longrightarrow>
        sink (cycle ToUpper float64 cfg w g) evStatus = float64 i) \<and>
     (\<forall>t. provider_FinishTime w v = Inr t \<longrightarrow>
        sink (cycle ToUpper float64 cfg w g) evFinishTime = float64 (sint (Unix t))) \<and>
     (\<forall>y. provider_Odometer w v = Inr y \<longrightarrow> sink (cycle ToUpper float64 cfg w g) evOdometer = y)"
  by (simp add: fetches_cycle_polled [OF assms] sink_cycle_polled [OF assms])

theorem fetches_isolated_witness:
  "provider_Range (example_remote\<lparr>provider_Range := (\<lambda>v. Inl ''timeout'')\<rparr>) ioniq = Inl ''timeout'' \<and>
   fetches (trace (cycle ToUpper_ascii (\<lambda>n. n) example_flags
      (example_remote\<lparr>provider_Range := (\<lambda>v. Inl ''timeout'')\<rparr>) (\<lambda>g. 7))) =
     [evRange, evSoc, evStatus, evFinishTime, evOdometer] \<and>
   map (sink (cycle ToUpper_ascii (\<lambda>n. n) example_flags
      (example_remote\<lparr>provider_Range := (\<lambda>v. Inl ''timeout'')\<rparr>) (\<lambda>g. 7)))
     [evSoc, evStatus, evFinishTime, evOdometer] = [80, 3, 1700000000, 12345]"
proof -
  let ?w = "example_remote\<lparr>provider_Range := (\<lambda>v. Inl ''timeout'')\<rparr>"
  have L: "identity_Login ?w (username example_flags) (token example_flags) = None"
    by (simp add: example_remote_def)
  have V: "ensureVehicleEx ToUpper_ascii (vin example_flags) (api_Vehicles ?w) (\<lambda>v. (VIN v, None)) = Inr ioniq"
    by (simp add: example_resolves example_remote_def)
  have P: "provider_Range ?w ioniq = Inl ''timeout''" "provider_Soc ?w ioniq = Inr 80"
    "provider_Status ?w ioniq = Inr ''C''" "provider_FinishTime ?w ioniq = Inr (Time 1700000000)"
    "provider_Odometer ?w ioniq = Inr 12345" "status_code ''C'' = Some 3"
    by (simp_all add: example_remote_def status_code_def)
  show ?thesis
    using fetches_isolated [OF L V, where ?float64.0 = "\<lambda>n. n" and g = "\<lambda>g. 7"] P by simp
qed

text \<open>
  C7. The loop never polls faster than the configured interval: every iteration, whether
  it ends with a failed login, with a failed resolution or after the five fetches,
  blocks for the same configured interval before the next begins. The code does end
  every iteration with one \<open>time.Sleep\<close> of one duration, but it breaks the claim where
  \<open>time.Duration(*pollInterval) * time.Second\<close> wraps around: with the interval
  9223372037 seconds the product is 9223372037000000000 as an unsigned 64-bit number,
  which is \<open>-9223372036709551616\<close> as an \<open>int64\<close>, and on all three paths \<open>time.Sleep\<close>
  gets this negative duration and returns at once.
\<close>

theorem sleep_overflow:
  "sint (pollInterval (example_flags\<lparr>pollInterval := 9223372037\<rparr>)) = 9223372037 \<and>
   sleep_duration (example_flags\<lparr>pollInterval := 9223372037\<rparr>) = 9223372037000000000 \<and>
   sint (9223372037000000000 :: 64 word) = - 9223372036709551616 \<and>
   blocks_for 9223372037000000000 = 0 \<and>
   trace (cycle ToUpper_ascii (\<lambda>n. n) (example_flags\<lparr>pollInterval := 9223372037\<rparr>)
      (example_remote\<lparr>identity_Login := (\<lambda>u t. Some ''unauthorized'')\<rparr>) (\<lambda>g. 0)) =
     [EvLogin ''user@example.com'' ''secret1234'', EvLog [] (LoggedErr ''unauthorized''),
      EvSleep 9223372037000000000] \<and>
   trace (cycle ToUpper_ascii (\<lambda>n. n) (example_flags\<lparr>pollInterval := 9223372037\<rparr>)
      (example_remote\<lparr>api_Vehicles := Inl ''offline''\<rparr>) (\<lambda>g. 0)) =
     [EvLogin ''user@example.com'' ''secret1234'', EvVehicles,
      EvLog [] (LoggedResolveErr (CannotGetVehicles ''offline'')),
      EvSleep 9223372037000000000] \<and>
   trace (cycle ToUpper_ascii (\<lambda>n. n) (example_flags\<lparr>pollInterval := 9223372037\<rparr>)
      example_remote (\<lambda>g. 0)) =
     [EvLogin ''user@example.com'' ''secret1234'', EvVehicles, EvFetch evRange, EvFetch evSoc,
      EvFetch evStatus, EvFetch evFinishTime, EvFetch evOdometer,
      EvSleep 9223372037000000000]"
  by (simp add: cycle_def emit_def gauge_Set_def example_flags_def flag_defaults_def
      example_remote_def sleep_duration_def Second_def blocks_for_def ensureVehicleEx_def
      ToUpper_ascii_def ioniq_def poll_range_def poll_soc_def poll_status_def
      poll_finish_time_def poll_odometer_def status_code_def)

text \<open>
  C8. When the login fails, and when the resolution fails, the iteration ends early: the
  failure is logged, no accessor is called, the gauges are left as they were, and the
  iteration sleeps. Every iteration begins with a login, and after a login that
  succeeded the list of vehicles is fetched and resolved again. No failure ends the
  loop: after any number of iterations there have been that many logins, whatever the
  remote source answered, and the process is still polling.
\<close>

theorem failures_end_cycle_not_loop:
  "(identity_Login w (username cfg) (token cfg) = Some err \<longrightarrow>
      cycle ToUpper float64 cfg w g =
        \<lparr>sink = g,
         trace = [EvLogin (username cfg) (token cfg), EvLog [] (LoggedErr err),
                  EvSleep (sleep_duration cfg)]\<rparr>) \<and>
   (identity_Login w (username cfg) (token cfg) = None \<and>
    ensureVehicleEx ToUpper (vin cfg) (api_Vehicles w) (\<lambda>v. (VIN v, None)) = Inl e \<longrightarrow>
      cycle ToUpper float64 cfg w g =
        \<lparr>sink = g,
         trace = [EvLogin (username cfg) (token cfg), EvVehicles, EvLog [] (LoggedResolveErr e),
                  EvSleep (sleep_duration cfg)]\<rparr>) \<and>
   (identity_Login w (username cfg) (token cfg) = None \<longrightarrow>
      (\<exists>evs. trace (cycle ToUpper float64 cfg w g) =
         EvLogin (username cfg) (token cfg) # EvVehicles # evs)) \<and>
   logins (trace (run ToUpper float64 cfg ws g0 n)) = replicate n (username cfg, token cfg) \<and>
   (\<not> showVersion cfg \<longrightarrow> main ToUpper float64 cfg ws n = Polling (run ToUpper float64 cfg ws (\<lambda>x. float64 0) n))"
  by (simp add: cycle_login_failed cycle_resolve_failed trace_cycle_vehicles logins_run main_def)

theorem failures_end_cycle_not_loop_witness:
  "cycle ToUpper_ascii (\<lambda>n. n) example_flags (example_remote\<lparr>identity_Login := (\<lambda>u t. Some ''unauthorized'')\<rparr>)
     (\<lambda>g. 7) =
     \<lparr>sink = (\<lambda>g. 7),
      trace = [EvLogin ''user@example.com'' ''secret1234'', EvLog [] (LoggedErr ''unauthorized''),
               EvSleep 60000000000]\<rparr> \<and>
   cycle ToUpper_ascii (\<lambda>n. n) example_flags (example_remote\<lparr>api_Vehicles := Inr [kona]\<rparr>) (\<lambda>g. 7) =
     \<lparr>sink = (\<lambda>g. 7),
      trace = [EvLogin ''user@example.com'' ''secret1234'', EvVehicles,
               EvLog [] (LoggedResolveErr (CannotFindVehicle [''XYZ789''])),
               EvSleep 60000000000]\<rparr> \<and>
   main ToUpper_ascii (\<lambda>n. n) example_flags (\<lambda>k. example_remote\<lparr>api_Vehicles := Inl ''offline''\<rparr>) 2 =
     Polling (run ToUpper_ascii (\<lambda>n. n) example_flags (\<lambda>k. example_remote\<lparr>api_Vehicles := Inl ''offline''\<rparr>)
       (\<lambda>g. 0) 2)"
proof -
  let ?w1 = "example_remote\<lparr>identity_Login := (\<lambda>u t. Some ''unauthorized'')\<rparr>"
  let ?w2 = "example_remote\<lparr>api_Vehicles := Inr [kona]\<rparr>"
  have L1: "identity_Login ?w1 (username example_flags) (token example_flags) = Some ''unauthorized''"
    by simp
  have L2: "identity_Login ?w2 (username example_flags) (token example_flags) = None"
    by (simp add: example_remote_def)
  have V2: "ensureVehicleEx ToUpper_ascii (vin example_flags) (api_Vehicles ?w2) (\<lambda>v. (VIN v, None)) =
      Inl (CannotFindVehicle [''XYZ789''])"
    by (simp add: ensureVehicleEx_def ToUpper_ascii_def kona_def)
  have S: "sleep_duration example_flags = 60000000000" "\<not> showVersion example_flags"
    by (simp_all add: sleep_duration_def Second_def example_flags_def flag_defaults_def)
  have C1: "cycle ToUpper_ascii (\<lambda>n. n) example_flags ?w1 (\<lambda>g. 7) =
     \<lparr>sink = (\<lambda>g. 7),
      trace = [EvLogin ''user@example.com'' ''secret1234'', EvLog [] (LoggedErr ''unauthorized''),
               EvSleep 60000000000]\<rparr>"
    using failures_end_cycle_not_loop [where ToUpper = ToUpper_ascii and w = ?w1
        and cfg = example_flags and err = "''unauthorized''" and ?float64.0 = "\<lambda>n. n"
        and g = "\<lambda>g. 7" and e = "CannotFindVehicle []" and ws = "\<lambda>k. ?w1"
        and g0 = "\<lambda>g. 0" and n = 0] L1 S
    by simp
  have C2: "cycle ToUpper_ascii (\<lambda>n. n) example_flags ?w2 (\<lambda>g. 7) =
     \<lparr>sink = (\<lambda>g. 7),
      trace = [EvLogin ''user@example.com'' ''secret1234'', EvVehicles,
               EvLog [] (LoggedResolveErr (CannotFindVehicle [''XYZ789''])),
               EvSleep 60000000000]\<rparr>"
    using failures_end_cycle_not_loop [where ToUpper = ToUpper_ascii and w = ?w2
        and cfg = example_flags and err = "''unauthorized''" and ?float64.0 = "\<lambda>n. n"
        and g = "\<lambda>g. 7" and e = "CannotFindVehicle [''XYZ789'']" and ws = "\<lambda>k. ?w2"
        and g0 = "\<lambda>g. 0" and n = 0] L2 V2 S
    by simp
  have C3: "main ToUpper_ascii (\<lambda>n. n) example_flags (\<lambda>k. example_remote\<lparr>api_Vehicles := Inl ''offline''\<rparr>) 2 =
     Polling (run ToUpper_ascii (\<lambda>n. n) example_flags (\<lambda>k. example_remote\<lparr>api_Vehicles := Inl ''offline''\<rparr>)
       (\<lambda>g. 0) 2)"
    using failures_end_cycle_not_loop [where ToUpper = ToUpper_ascii and w = ?w1
        and cfg = example_flags and err = "''unauthorized''" and ?float64.0 = "\<lambda>n. n"
        and g = "\<lambda>g. 7" and e = "CannotFindVehicle []"
        and ws = "\<lambda>k. example_remote\<lparr>api_Vehicles := Inl ''offline''\<rparr>"
        and g0 = "\<lambda>g. 0" and n = 2] S
    by simp
  show ?thesis
    using C1 C2 C3 by simp
qed

text \<open>
  C9. When the fetch of the charge finish time succeeds, the finish-time gauge is set to
  \<open>float64\<close> of the time's \<open>Unix()\<close> value, the seconds since the epoch taken as a signed
  64-bit integer.
\<close>

theorem finish_time_published:
  "identity_Login w (username cfg) (token cfg) = None \<Longrightarrow>
   ensureVehicleEx ToUpper (vin cfg) (api_Vehicles w) (\<lambda>v. (VIN v, None)) = Inr v \<Longrightarrow>
   provider_FinishTime w v = Inr t \<Longrightarrow>
   sink (cycle ToUpper float64 cfg w g) evFinishTime = float64 (sint (Unix t))"
  by (simp add: sink_cycle_polled)

theorem finish_time_published_witness:
  "identity_Login example_remote (username example_flags) (token example_flags) = None \<and>
   ensureVehicleEx ToUpper_ascii (vin example_flags) (api_Vehicles example_remote) (\<lambda>v. (VIN v, None)) = Inr ioniq \<and>
   provider_FinishTime example_remote ioniq = Inr (Time 1700000000) \<and>
   sink (cycle ToUpper_ascii (\<lambda>n. n) example_flags example_remote (\<lambda>g. 0)) evFinishTime = 1700000000"
  using finish_time_published [where ToUpper = ToUpper_ascii and w = example_remote
      and cfg = example_flags and v = ioniq and t = "Time 1700000000" and ?float64.0 = "\<lambda>n. n"
      and g = "\<lambda>g. 0"]
  by (simp add: example_resolves)

text \<open>
  C10, as the claim states it: in the list of the "cannot find vehicle" error, a vehicle
  whose extraction fails stands as the empty string. It is not so: the list holds the
  string the extraction returned beside its error. Here the extraction returns the VIN
  and an error, the filter is empty and there are two vehicles: the error lists both
  VINs.
\<close>

theorem extraction_error_counterexample:
  "ensureVehicleEx ToUpper_ascii [] (Inr [ioniq, kona]) (\<lambda>v. (VIN v, Some ''unchecked''))
     = Inl (CannotFindVehicle [''ABC123'', ''XYZ789'']) \<and>
   ensureVehicleEx ToUpper_ascii [] (Inr [ioniq, kona]) (\<lambda>v. (VIN v, Some ''unchecked''))
     \<noteq> Inl (CannotFindVehicle ['''', ''''])"
  by (simp add: ensureVehicleEx_def ToUpper_ascii_def ioniq_def kona_def)

text \<open>
  C10, amended. With a non-empty filter, when the extraction returns an error for a
  vehicle that the scan reaches, no vehicle before it having matched, the resolution
  fails at once with that very error, which carries no list of identifiers, whatever
  comes later in the list, a match included. The list of the "cannot find vehicle" error
  instead is built with the errors of the extraction ignored: each vehicle stands in it
  as the string the extraction returned for it, error or not, which is the empty string
  for an extraction that returns the empty string with its errors.
\<close>

theorem extraction_error:
  assumes "\<And>s. ToUpper s = [] \<longleftrightarrow> s = []"
  shows "(wanted \<noteq> [] \<and>
    (\<forall>u\<in>set pre. snd (extract u) = None \<and> ToUpper (fst (extract u)) \<noteq> ToUpper wanted) \<and>
    snd (extract x) = Some err
    \<longrightarrow> ensureVehicleEx ToUpper wanted (Inr (pre @ x # post)) extract = Inl (Passed err)) \<and>
   (length vehicles \<noteq> 1
    \<longrightarrow> ensureVehicleEx ToUpper [] (Inr vehicles) extract =
         Inl (CannotFindVehicle (map (\<lambda>v. fst (extract v)) vehicles))) \<and>
   (ensureVehicleEx ToUpper wanted (Inr vehicles) extract = Inl (CannotFindVehicle ids)
    \<longrightarrow> ids = map (\<lambda>v. fst (extract v)) vehicles)"
  by (auto simp: ensureVehicleEx_def scan_error assms Let_def
      split: sum.splits option.splits if_splits)

theorem extraction_error_witness:
  "ensureVehicleEx ToUpper_ascii ''b'' (Inr [(''a'', None), (''?'', Some ''boom''), (''B'', None)])
     (\<lambda>v. v) = Inl (Passed ''boom'') \<and>
   ensureVehicleEx ToUpper_ascii ''b'' (Inr [(''a'', None), (''B'', None :: string option)])
     (\<lambda>v. v) = Inr (''B'', None) \<and>
   ensureVehicleEx ToUpper_ascii [] (Inr [(''a'', None), ('''', Some ''boom'')]) (\<lambda>v. v)
     = Inl (CannotFindVehicle [''a'', ''''])"
proof -
  have later_match: "ensureVehicleEx ToUpper_ascii ''b''
      (Inr [(''a'', None), (''B'', None :: string option)]) (\<lambda>v. v) = Inr (''B'', None)"
    by (simp add: ensureVehicleEx_def upper_examples)
  show ?thesis
    using extraction_error [OF ToUpper_ascii_Nil_iff, of "''b''" "[(''a'', None)]" "\<lambda>v. v"
        "(''?'', Some ''boom'')" "''boom''" "[(''B'', None)]"
        "[(''a'', None), ('''', Some ''boom'')]" "[]"] later_match
    by (simp add: upper_examples)
qed

end
